theory Spec2Isabelle
  imports Main "HOL-Library.Word"
begin

section \<open>The credential lifecycle of package authentication (auth.go)\<close>

subsection \<open>Data\<close>

text \<open>
  \<^verbatim>\<open>GraphAuthentication\<close>: what the token endpoint returns and what is persisted.
  \<^verbatim>\<open>ExpiresIn\<close> is a \<^verbatim>\<open>uint16\<close>.
\<close>

record GraphAuthentication =
  Token :: string
  Scope :: string
  ExpiresIn :: "16 word"
  AccessToken :: string
  RefreshToken :: string

text \<open>The zero value \<^verbatim>\<open>GraphAuthentication{}\<close>.\<close>

definition emptyGraphAuthentication :: GraphAuthentication where
  "emptyGraphAuthentication =
     \<lparr>Token = [], Scope = [], ExpiresIn = 0, AccessToken = [], RefreshToken = []\<rparr>"

text \<open>
  \<^verbatim>\<open>CredentialStorage\<close>. A \<^verbatim>\<open>time.Time\<close> is an integer count of nanoseconds, the zero
  \<^verbatim>\<open>time.Time{}\<close> being 0. The mutex is taken and released inside each operation; the
  operations below run one at a time, so the lock has no field of its own.
\<close>

record CredentialStorage =
  credentials :: GraphAuthentication
  expiresTimestamp :: int
  authenticated :: bool

definition emptyCredentialStorage :: CredentialStorage where
  "emptyCredentialStorage =
     \<lparr>credentials = emptyGraphAuthentication, expiresTimestamp = 0, authenticated = False\<rparr>"

record CredentialsConfig =
  Browser :: bool
  Persist :: bool
  StoragePath :: string

text \<open>
  The \<^verbatim>\<open>Logger\<close> interface. The only implementation this repository passes to
  \<^verbatim>\<open>Run\<close> is logrus's (main.go), whose \<^verbatim>\<open>Fatal\<close> logs and then exits the process.
\<close>

datatype Logger = Logrus

datatype level = Debug | Info | Warn | Error | Fatal

subsection \<open>The world outside the package\<close>

text \<open>
  The answer of \<^verbatim>\<open>http.PostForm\<close> is an input of the model. A response body is
  represented by what \<^verbatim>\<open>json.NewDecoder(resp.Body).Decode(&graphAuth)\<close> makes of it when
  decoding into a fresh \<^verbatim>\<open>GraphAuthentication\<close>: an error, or the decoded value (fields
  the body does not mention stay zero, unknown fields are ignored).
\<close>

datatype body = Malformed | Json GraphAuthentication

datatype http_result = TransportError | Response int body

text \<open>
  The toml library (github.com/BurntSushi/toml) is not part of the repository: its
  encoder and decoder are parameters. \<^verbatim>\<open>toml_Encode\<close> gives the text written to the
  buffer, or \<open>None\<close> for an encoding error. \<^verbatim>\<open>toml_Decode\<close> decodes a text into an
  existing struct and gives the error flag and the struct as it is left.
\<close>

record toml =
  toml_Encode :: "GraphAuthentication \<Rightarrow> string option"
  toml_Decode :: "string \<Rightarrow> GraphAuthentication \<Rightarrow> bool \<times> GraphAuthentication"

text \<open>What the package sends to the token endpoint: the grant and its secret.\<close>

datatype grant = RefreshTokenGrant string | AuthorizationCodeGrant string

text \<open>Effects that leave the package, in the order they happen.\<close>

datatype event =
    Log level
  | Printf
  | BrowserOpen
  | PostForm grant
  | Sleep "64 word"
  | GoRefreshTokenManager

text \<open>
  The package-level variables (\<^verbatim>\<open>credentialsConfig\<close>, \<^verbatim>\<open>graphCredentialStorage\<close>,
  \<^verbatim>\<open>refreshTokenManagerRunning\<close>, \<^verbatim>\<open>logger\<close>, which is nil until \<^verbatim>\<open>Run\<close> assigns it)
  and the environment: the files by path, the paths at which \<^verbatim>\<open>os.Create\<close>,
  \<^verbatim>\<open>WriteString\<close> and \<^verbatim>\<open>Close\<close> fail, whether starting the browser fails, the clock
  read by \<^verbatim>\<open>time.Now()\<close>, and the trace of effects. \<^verbatim>\<open>oauthConfig\<close> only shapes the
  request sent to the provider, whose answer is an input here, and is left out.
\<close>

record state =
  credentialsConfig :: CredentialsConfig
  graphCredentialStorage :: CredentialStorage
  refreshTokenManagerRunning :: bool
  logger :: "Logger option"
  files :: "string \<Rightarrow> string option"
  createFails :: "string \<Rightarrow> bool"
  writeFails :: "string \<Rightarrow> bool"
  closeFails :: "string \<Rightarrow> bool"
  browserFails :: bool
  clock :: int
  trace :: "event list"

text \<open>
  An operation runs on the state and either returns a value or aborts: a nil
  dereference panics, \<^verbatim>\<open>Fatal\<close> exits the process. The state is the one reached when
  the operation ends, either way.
\<close>

datatype abort = NilPointerDereference | ProcessExit

type_synonym 'a exec = "state \<Rightarrow> (abort + 'a) \<times> state"

definition ret :: "'a \<Rightarrow> 'a exec" where
  "ret x s = (Inr x, s)"

definition seq :: "'a exec \<Rightarrow> ('a \<Rightarrow> 'b exec) \<Rightarrow> 'b exec" where
  "seq m f s = (case m s of (Inl e, s') \<Rightarrow> (Inl e, s') | (Inr x, s') \<Rightarrow> f x s')"

definition modify :: "(state \<Rightarrow> state) \<Rightarrow> unit exec" where
  "modify f s = (Inr (), f s)"

definition emit :: "event \<Rightarrow> unit exec" where
  "emit e = modify (\<lambda>s. s\<lparr>trace := trace s @ [e]\<rparr>)"

text \<open>A call of a method of \<^verbatim>\<open>logger\<close>: a nil interface panics, \<^verbatim>\<open>Fatal\<close> exits.\<close>

definition logCall :: "level \<Rightarrow> unit exec" where
  "logCall lvl s =
     (case logger s of
        None \<Rightarrow> (Inl NilPointerDereference, s)
      | Some Logrus \<Rightarrow>
          (if lvl = Fatal then (Inl ProcessExit, s\<lparr>trace := trace s @ [Log lvl]\<rparr>)
           else (Inr (), s\<lparr>trace := trace s @ [Log lvl]\<rparr>)))"

text \<open>
  \<^verbatim>\<open>filepath.Join\<close> of a directory and a file name (an empty directory is dropped).
  Both callers join the same file name to the storage path; the clean-up of the
  joined path that the library also does is not represented.
\<close>

definition filepath_Join :: "string \<Rightarrow> string \<Rightarrow> string" where
  "filepath_Join dir name = (if dir = [] then name else dir @ ''/'' @ name)"

definition credentialsFile :: "string \<Rightarrow> string" where
  "credentialsFile path = filepath_Join path ''credentials.toml''"

text \<open>\<^verbatim>\<open>time.Second\<close> as a \<^verbatim>\<open>time.Duration\<close> (an \<^verbatim>\<open>int64\<close> of nanoseconds).\<close>

definition time_Second :: "64 word" where
  "time_Second = 1000000000"

subsection \<open>The operations\<close>

definition setCredentials :: "GraphAuthentication \<Rightarrow> state \<Rightarrow> state" where
  "setCredentials c s =
     s\<lparr>graphCredentialStorage := (graphCredentialStorage s)\<lparr>credentials := c\<rparr>\<rparr>"

definition setAuthenticated :: "bool \<Rightarrow> state \<Rightarrow> state" where
  "setAuthenticated b s =
     s\<lparr>graphCredentialStorage := (graphCredentialStorage s)\<lparr>authenticated := b\<rparr>\<rparr>"

text \<open>\<^verbatim>\<open>loadExistingCredentials\<close> (auth.go 75-91).\<close>

definition loadExistingCredentials :: "toml \<Rightarrow> unit exec" where
  "loadExistingCredentials lib =
     seq (modify (\<lambda>s. s\<lparr>graphCredentialStorage := emptyCredentialStorage\<rparr>)) (\<lambda>_ s.
       if \<not> Persist (credentialsConfig s) then ret () s
       else
         (let readResult = files s (credentialsFile (StoragePath (credentialsConfig s)));
              credentialsContent = (case readResult of None \<Rightarrow> [] | Some c \<Rightarrow> c)
          in seq (if readResult = None then logCall Error else ret ()) (\<lambda>_ s1.
               (case toml_Decode lib credentialsContent
                       (credentials (graphCredentialStorage s1)) of
                  (err, c) \<Rightarrow>
                    seq (modify (setCredentials c)) (\<lambda>_.
                      if err then logCall Error else ret ()) s1)) s))"

text \<open>\<^verbatim>\<open>openLoginPage\<close> (auth.go 196-203).\<close>

definition openLoginPage :: "unit exec" where
  "openLoginPage s =
     (if Browser (credentialsConfig s) then
        seq (emit BrowserOpen) (\<lambda>_ s1.
          if browserFails s1 then logCall Error s1 else ret () s1) s
      else ret () s)"

text \<open>
  The assignments both handlers make after a successful decode (auth.go 266-272 and
  312-318): every field of the credential, the expiry
  \<^verbatim>\<open>time.Now().Add(time.Second * time.Duration(graphAuth.ExpiresIn))\<close>, and the flag.
\<close>

definition storeToken :: "GraphAuthentication \<Rightarrow> state \<Rightarrow> state" where
  "storeToken graphAuth s =
     s\<lparr>graphCredentialStorage :=
         \<lparr>credentials =
            (credentials (graphCredentialStorage s))
              \<lparr>Token := Token graphAuth,
               AccessToken := AccessToken graphAuth,
               ExpiresIn := ExpiresIn graphAuth,
               RefreshToken := RefreshToken graphAuth,
               Scope := Scope graphAuth\<rparr>,
          expiresTimestamp = clock s + sint (time_Second * ucast (ExpiresIn graphAuth)),
          authenticated = True\<rparr>\<rparr>"

text \<open>The two assignments of the failure branches (auth.go 247-248 and 259-260).\<close>

definition clearCredentials :: "state \<Rightarrow> state" where
  "clearCredentials s = setAuthenticated False (setCredentials emptyGraphAuthentication s)"

text \<open>
  \<^verbatim>\<open>refreshTokenHandler\<close> (auth.go 224-275), given what \<^verbatim>\<open>http.PostForm\<close> answers.
  The result is the Go \<^verbatim>\<open>error\<close>: \<open>None\<close> is nil.
\<close>

datatype error = JsonDecodeError

definition refreshTokenHandler :: "http_result \<Rightarrow> error option exec" where
  "refreshTokenHandler reply =
     seq (\<lambda>s. emit (PostForm (RefreshTokenGrant
                 (RefreshToken (credentials (graphCredentialStorage s))))) s) (\<lambda>_.
       case reply of
         TransportError \<Rightarrow> seq (logCall Error) (\<lambda>_. ret None)
       | Response statusCode b \<Rightarrow>
           if statusCode \<noteq> 200 then
             seq (logCall Warn) (\<lambda>_.
             seq (modify clearCredentials) (\<lambda>_.
             seq openLoginPage (\<lambda>_. ret None)))
           else
             (case b of
                Malformed \<Rightarrow>
                  seq (logCall Error) (\<lambda>_.
                  seq (modify clearCredentials) (\<lambda>_.
                  seq openLoginPage (\<lambda>_. ret (Some JsonDecodeError))))
              | Json graphAuth \<Rightarrow>
                  seq (logCall Info) (\<lambda>_.
                  seq (modify (storeToken graphAuth)) (\<lambda>_. ret None))))"

text \<open>
  \<^verbatim>\<open>callbackHandler\<close> (auth.go 277-326), given the \<^verbatim>\<open>code\<close> query parameter and what
  \<^verbatim>\<open>http.PostForm\<close> answers. The result is the redirect written to the client: its
  target and its status. The goroutine it starts is an effect in the trace.
\<close>

definition callbackHandler :: "string \<Rightarrow> http_result \<Rightarrow> (string \<times> nat) exec" where
  "callbackHandler code reply =
     seq (emit (PostForm (AuthorizationCodeGrant code))) (\<lambda>_.
       case reply of
         TransportError \<Rightarrow> seq (logCall Error) (\<lambda>_. ret (''/error'', 400))
       | Response statusCode b \<Rightarrow>
           (case b of
              Malformed \<Rightarrow> seq (logCall Error) (\<lambda>_. ret (''/error'', 400))
            | Json graphAuth \<Rightarrow>
                seq (logCall Info) (\<lambda>_.
                seq (modify (storeToken graphAuth)) (\<lambda>_.
                seq (emit GoRefreshTokenManager) (\<lambda>_. ret (''/success'', 303))))))"

text \<open>
  A \<^verbatim>\<open>*CredentialStorage\<close>: nil, or the address of the package's
  \<^verbatim>\<open>graphCredentialStorage\<close>.
\<close>

datatype handle = NilHandle | StoragePtr

text \<open>\<^verbatim>\<open>GetAccessToken\<close> (auth.go 120-127).\<close>

definition GetAccessToken :: "handle \<Rightarrow> (string \<times> bool) exec" where
  "GetAccessToken h s =
     (case h of
        NilHandle \<Rightarrow> (Inl NilPointerDereference, s)
      | StoragePtr \<Rightarrow>
          (Inr (AccessToken (credentials (graphCredentialStorage s)),
                authenticated (graphCredentialStorage s)), s))"

text \<open>\<^verbatim>\<open>persistCredentials\<close> (auth.go 161-194).\<close>

definition persistCredentials :: "toml \<Rightarrow> string \<Rightarrow> unit exec" where
  "persistCredentials lib path s =
     (if length path = 0 then ret () s
      else
        (case toml_Encode lib (credentials (graphCredentialStorage s)) of
           None \<Rightarrow> emit Printf s
         | Some buf \<Rightarrow>
             (let f = credentialsFile path in
              if createFails s f then logCall Fatal s
              else
                seq (modify (\<lambda>s. s\<lparr>files := (files s)(f := Some [])\<rparr>)) (\<lambda>_.
                seq (\<lambda>s. if writeFails s f then logCall Fatal s
                          else modify (\<lambda>s. s\<lparr>files := (files s)(f := Some buf)\<rparr>) s) (\<lambda>_ s.
                  if closeFails s f then logCall Fatal s else ret () s)) s)))"

text \<open>
  The sleep of the refresh manager (auth.go 144):
  \<^verbatim>\<open>time.Duration(credentials.credentials.ExpiresIn-60) * time.Second\<close>. The
  subtraction is a \<^verbatim>\<open>uint16\<close> one; the conversion to \<^verbatim>\<open>int64\<close> comes after it.
\<close>

definition timeUntilRefresh :: "GraphAuthentication \<Rightarrow> 64 word" where
  "timeUntilRefresh c = ucast (ExpiresIn c - 60) * time_Second"

text \<open>\<^verbatim>\<open>time.Sleep\<close>: returns at once for a duration that is not positive.\<close>

definition time_Sleep :: "64 word \<Rightarrow> unit exec" where
  "time_Sleep d = seq (emit (Sleep d)) (\<lambda>_. modify (\<lambda>s. s\<lparr>clock := clock s + max 0 (sint d)\<rparr>))"

text \<open>
  One pass through the body of the loop of \<^verbatim>\<open>refreshTokenManager\<close> (auth.go 137-157),
  up to the refresh; the result is the error of \<^verbatim>\<open>refreshTokenHandler\<close>.
\<close>

definition managerCycle :: "toml \<Rightarrow> http_result \<Rightarrow> error option exec" where
  "managerCycle lib reply =
     seq (\<lambda>s. if Persist (credentialsConfig s)
               then persistCredentials lib (StoragePath (credentialsConfig s)) s
               else ret () s) (\<lambda>_.
     seq (\<lambda>s. time_Sleep (timeUntilRefresh (credentials (graphCredentialStorage s))) s) (\<lambda>_.
     seq (logCall Debug) (\<lambda>_. refreshTokenHandler reply)))"

text \<open>
  The loop runs for ever unless a refresh returns an error. The model takes the
  answers of the provider to the successive refreshes; when they are used up the
  manager is still looping and the run is \<open>Looping\<close>.
\<close>

datatype manager_status = NotStarted | Looping | Stopped

fun managerLoop :: "toml \<Rightarrow> http_result list \<Rightarrow> manager_status exec" where
  "managerLoop lib [] s = (Inr Looping, s)"
| "managerLoop lib (reply # replies) s =
     (case managerCycle lib reply s of
        (Inl e, s') \<Rightarrow> (Inl e, s')
      | (Inr (Some err), s') \<Rightarrow> (Inr Stopped, s'\<lparr>refreshTokenManagerRunning := False\<rparr>)
      | (Inr None, s') \<Rightarrow> managerLoop lib replies s')"

text \<open>\<^verbatim>\<open>refreshTokenManager\<close> (auth.go 129-159).\<close>

definition refreshTokenManager :: "toml \<Rightarrow> http_result list \<Rightarrow> manager_status exec" where
  "refreshTokenManager lib replies s =
     (if refreshTokenManagerRunning s then (Inr NotStarted, s)
      else managerLoop lib replies (s\<lparr>refreshTokenManagerRunning := True\<rparr>))"

text \<open>
  \<^verbatim>\<open>Run\<close> (auth.go 93-118), given the configuration, the logger and what
  \<^verbatim>\<open>http.PostForm\<close> answers to the refresh, if one is made. The credentials are loaded
  before \<^verbatim>\<open>logger\<close> is assigned. The goroutine is an effect in the trace; the result is
  the pointer returned.
\<close>

definition Run :: "toml \<Rightarrow> CredentialsConfig \<Rightarrow> Logger \<Rightarrow> http_result \<Rightarrow> handle exec" where
  "Run lib appConfig log reply =
     seq (modify (\<lambda>s. s\<lparr>credentialsConfig := appConfig\<rparr>)) (\<lambda>_.
     seq (loadExistingCredentials lib) (\<lambda>_.
     seq (modify (\<lambda>s. s\<lparr>logger := Some log\<rparr>)) (\<lambda>_ s.
       (if length (RefreshToken (credentials (graphCredentialStorage s))) > 0 then
          seq (refreshTokenHandler reply) (\<lambda>err.
            if err = None then seq (emit GoRefreshTokenManager) (\<lambda>_. ret NilHandle)
            else seq openLoginPage (\<lambda>_. ret StoragePtr))
        else seq openLoginPage (\<lambda>_. ret StoragePtr)) s)))"

subsection \<open>Runs of operations\<close>

text \<open>The refreshes a run has posted to the provider, read off the trace.\<close>

fun isRefreshAttempt :: "event \<Rightarrow> bool" where
  "isRefreshAttempt (PostForm (RefreshTokenGrant _)) = True"
| "isRefreshAttempt _ = False"

definition refreshAttempts :: "state \<Rightarrow> nat" where
  "refreshAttempts s = length (filter isRefreshAttempt (trace s))"








subsection \<open>Concrete inputs\<close>

text \<open>The process at its start: every package-level variable has its zero value.\<close>

definition startState :: state where
  "startState =
     \<lparr>credentialsConfig = \<lparr>Browser = False, Persist = False, StoragePath = []\<rparr>,
      graphCredentialStorage = emptyCredentialStorage,
      refreshTokenManagerRunning = False,
      logger = None,
      files = (\<lambda>_. None),
      createFails = (\<lambda>_. False),
      writeFails = (\<lambda>_. False),
      closeFails = (\<lambda>_. False),
      browserFails = False,
      clock = 0,
      trace = []\<rparr>"

definition sampleCredential :: GraphAuthentication where
  "sampleCredential =
     \<lparr>Token = ''Bearer'', Scope = ''Calendars.Read'', ExpiresIn = 3600,
      AccessToken = ''tok1'', RefreshToken = ''rt-123''\<rparr>"

text \<open>A process that has its logger and holds \<open>sampleCredential\<close>, authenticated.\<close>

definition servingState :: state where
  "servingState = storeToken sampleCredential (startState\<lparr>logger := Some Logrus\<rparr>)"

text \<open>
  A stand-in for the toml library on concrete inputs: it knows one document, the one of
  \<open>sampleCredential\<close>; the empty text decodes to nothing, any other text is an error.
\<close>

definition sampleDocument :: string where
  "sampleDocument =
     ''Token = Bearer; Scope = Calendars.Read; ExpiresIn = 3600; AccessToken = tok1; RefreshToken = rt-123''"

definition sampleToml :: toml where
  "sampleToml =
     \<lparr>toml_Encode = (\<lambda>c. if c = sampleCredential then Some sampleDocument else None),
      toml_Decode = (\<lambda>text dst.
         if text = sampleDocument then (False, sampleCredential)
         else if text = [] then (False, dst) else (True, dst))\<rparr>"

text \<open>A process at its start that finds the document of \<open>sampleCredential\<close> on disk.\<close>

definition persistedState :: state where
  "persistedState =
     startState\<lparr>files :=
       (\<lambda>p. if p = ''/cache/credentials.toml'' then Some sampleDocument else None)\<rparr>"

definition persistingConfig :: CredentialsConfig where
  "persistingConfig = \<lparr>Browser = False, Persist = True, StoragePath = ''/cache''\<rparr>"


text \<open>
  A process after a startup without persistence: \<open>Run\<close> makes no refresh and returns
  the pointer to the store.
\<close>

definition interactiveStart :: state where
  "interactiveStart =
     snd (Run sampleToml \<lparr>Browser = False, Persist = False, StoragePath = []\<rparr> Logrus
            TransportError startState)"

section \<open>Properties\<close>

subsection \<open>Auxiliary facts\<close>

lemmas exec_defs = seq_def ret_def modify_def emit_def logCall_def

lemma seq_fst_cases:
  "fst (seq m f s) = (case fst (m s) of Inl e \<Rightarrow> Inl e | Inr x \<Rightarrow> fst (f x (snd (m s))))"
  by (simp add: seq_def split: prod.splits sum.splits)

lemma seq_snd_cases:
  "snd (seq m f s) = (case fst (m s) of Inl e \<Rightarrow> snd (m s) | Inr x \<Rightarrow> snd (f x (snd (m s))))"
  by (simp add: seq_def split: prod.splits sum.splits)


text \<open>
  The product \<^verbatim>\<open>time.Second * time.Duration(x)\<close> of a \<^verbatim>\<open>uint16\<close> never leaves the
  range of \<^verbatim>\<open>int64\<close>.
\<close>

lemma uint_seconds:
  "uint (time_Second * (ucast (x :: 16 word) :: 64 word)) = 1000000000 * uint x"
proof -
  have b: "uint x < 65536" using uint_bounded [of x] by simp
  have u: "uint (ucast x :: 64 word) = uint x"
    by (simp add: uint_up_ucast is_up)
  have "uint (time_Second * (ucast x :: 64 word)) = (1000000000 * uint x) mod 2 ^ 64"
    by (simp add: uint_word_ariths u time_Second_def)
  also have "\<dots> = 1000000000 * uint x"
    using b by simp
  finally show ?thesis .
qed

lemma sint_seconds:
  "sint (time_Second * (ucast (x :: 16 word) :: 64 word)) = 1000000000 * uint x"
proof -
  have b: "uint x < 65536" using uint_bounded [of x] by simp
  have lo: "- (2 ^ 63) \<le> 1000000000 * uint x"
  proof -
    have "(0::int) \<le> 1000000000 * uint x" by simp
    moreover have "- (2 ^ 63) \<le> (0::int)" by simp
    ultimately show ?thesis by (rule order_trans [rotated])
  qed
  have hi: "1000000000 * uint x < 2 ^ 63" using b by simp
  have "sint (time_Second * (ucast x :: 64 word))
          = signed_take_bit 63 (uint (time_Second * (ucast x :: 64 word)))"
    by (simp add: sint_uint)
  also have "\<dots> = 1000000000 * uint x"
    unfolding uint_seconds using lo hi by (rule signed_take_bit_int_eq_self)
  finally show ?thesis .
qed

lemma timeUntilRefresh_nonneg: "0 \<le> sint (timeUntilRefresh c)"
  by (simp add: timeUntilRefresh_def mult.commute [of _ time_Second] sint_seconds)

subsection \<open>A refresh that fails\<close>

text \<open>
  C1, as the code has it. Once the logger is assigned, a refresh answered with a status
  other than 200, or with status 200 and a body that does not decode, returns (nil in the
  first case, the decoding error in the second) and leaves the store with the empty
  credential and \<open>authenticated = False\<close>, whatever it held before: a read gives the
  empty access token and \<open>False\<close>. A transport failure is only logged: the handler
  returns nil and the store is as it was.
\<close>

theorem refresh_failure_store:
  "logger s = Some lg \<Longrightarrow>
     ((statusCode \<noteq> 200 \<or> b = Malformed) \<longrightarrow>
        (fst (refreshTokenHandler (Response statusCode b) s) = Inr None \<or>
         fst (refreshTokenHandler (Response statusCode b) s) = Inr (Some JsonDecodeError)) \<and>
        credentials (graphCredentialStorage (snd (refreshTokenHandler (Response statusCode b) s)))
          = emptyGraphAuthentication \<and>
        authenticated (graphCredentialStorage (snd (refreshTokenHandler (Response statusCode b) s)))
          = False \<and>
        fst (GetAccessToken StoragePtr (snd (refreshTokenHandler (Response statusCode b) s)))
          = Inr ([], False)) \<and>
     fst (refreshTokenHandler TransportError s) = Inr None \<and>
     graphCredentialStorage (snd (refreshTokenHandler TransportError s))
       = graphCredentialStorage s"
  by (cases lg)
     (auto simp: refreshTokenHandler_def exec_defs openLoginPage_def clearCredentials_def
        setCredentials_def setAuthenticated_def GetAccessToken_def emptyGraphAuthentication_def
        split: if_splits body.splits)

text \<open>
  The statement of C1 at a concrete input: an authenticated store holding
  \<open>sampleCredential\<close>, and a refresh that the provider answers with status 400.
\<close>

theorem refresh_failure_store_witness:
  "logger servingState = Some Logrus \<and>
   (400::int) \<noteq> 200 \<and>
   authenticated (graphCredentialStorage servingState) \<and>
   AccessToken (credentials (graphCredentialStorage servingState)) = ''tok1'' \<and>
   fst (GetAccessToken StoragePtr (snd (refreshTokenHandler (Response 400 Malformed) servingState)))
     = Inr ([], False)"
proof -
  have l: "logger servingState = Some Logrus"
    by (simp add: servingState_def storeToken_def)
  have a: "authenticated (graphCredentialStorage servingState)"
    by (simp add: servingState_def storeToken_def)
  have t: "AccessToken (credentials (graphCredentialStorage servingState)) = ''tok1''"
    by (simp add: servingState_def storeToken_def sampleCredential_def)
  from refresh_failure_store [OF l, of 400 Malformed] l a t show ?thesis by simp
qed

text \<open>
  C1 as it is stated fails at a transport failure: the store held \<open>tok1\<close>,
  authenticated, before the refresh, and a read after it still gives \<open>tok1\<close> and
  \<open>True\<close>.
\<close>

theorem transport_failure_keeps_token:
  "fst (GetAccessToken StoragePtr (snd (refreshTokenHandler TransportError servingState)))
     = Inr (''tok1'', True)"
  by (simp add: servingState_def startState_def sampleCredential_def storeToken_def
        refreshTokenHandler_def exec_defs GetAccessToken_def emptyCredentialStorage_def)

subsection \<open>The callback\<close>

text \<open>
  C4 at the input where the code departs from it: the provider answers the exchange
  of the code \<open>bad\<close> with status 400 and a JSON body that names none of the token
  fields (an error object). \<open>callbackHandler\<close> never reads the status: it redirects to
  \<open>/success\<close> with 303, marks the store authenticated with an empty access token and
  starts the refresh manager.
\<close>

theorem callback_ignores_status:
  "fst (callbackHandler ''bad'' (Response 400 (Json emptyGraphAuthentication))
          (startState\<lparr>logger := Some Logrus\<rparr>)) = Inr (''/success'', 303) \<and>
   fst (GetAccessToken StoragePtr
          (snd (callbackHandler ''bad'' (Response 400 (Json emptyGraphAuthentication))
                  (startState\<lparr>logger := Some Logrus\<rparr>)))) = Inr ([], True) \<and>
   trace (snd (callbackHandler ''bad'' (Response 400 (Json emptyGraphAuthentication))
                  (startState\<lparr>logger := Some Logrus\<rparr>)))
     = [PostForm (AuthorizationCodeGrant ''bad''), Log Info, GoRefreshTokenManager]"
  by (simp add: startState_def callbackHandler_def exec_defs storeToken_def GetAccessToken_def
        emptyGraphAuthentication_def emptyCredentialStorage_def)

subsection \<open>The sleep of the refresh manager\<close>

text \<open>
  C5 on the code. The duration the manager sleeps is never negative, since the
  subtraction is done on \<^verbatim>\<open>uint16\<close>; for the same reason it is not 0 when
  \<^verbatim>\<open>ExpiresIn\<close> is 30: the difference wraps to 65506, and the manager sleeps 65506
  seconds.
\<close>

theorem timeUntilRefresh_wraps:
  "0 \<le> sint (timeUntilRefresh c) \<and>
   sint (timeUntilRefresh (c\<lparr>ExpiresIn := 30\<rparr>)) = 65506 * 1000000000"
proof
  show "0 \<le> sint (timeUntilRefresh c)" by (rule timeUntilRefresh_nonneg)
  show "sint (timeUntilRefresh (c\<lparr>ExpiresIn := 30\<rparr>)) = 65506 * 1000000000"
    by (simp add: timeUntilRefresh_def time_Second_def)
qed

subsection \<open>Reading after an exchange\<close>

text \<open>
  C7. With the logger assigned, a refresh answered with status 200 and a body that
  decodes to \<open>g\<close>, and a callback answered with a body that decodes to \<open>g\<close>, return
  normally, and a read through a pointer to the store right after gives the access token
  of \<open>g\<close> and \<open>True\<close>; the read returns and leaves the state as it found it.
\<close>

theorem read_after_write:
  "logger s = Some lg \<Longrightarrow>
     (\<exists>s1. refreshTokenHandler (Response 200 (Json g)) s = (Inr None, s1) \<and>
           GetAccessToken StoragePtr s1 = (Inr (AccessToken g, True), s1)) \<and>
     (\<exists>s2. callbackHandler code (Response statusCode (Json g)) s = (Inr (''/success'', 303), s2) \<and>
           GetAccessToken StoragePtr s2 = (Inr (AccessToken g, True), s2))"
  by (cases lg) (simp add: refreshTokenHandler_def callbackHandler_def exec_defs storeToken_def
        GetAccessToken_def)

text \<open>C7 at a concrete refresh: the store is read as \<open>tok1\<close>, authenticated.\<close>

theorem read_after_write_witness:
  "logger (startState\<lparr>logger := Some Logrus\<rparr>) = Some Logrus \<and>
   fst (refreshTokenHandler (Response 200 (Json sampleCredential))
          (startState\<lparr>logger := Some Logrus\<rparr>)) = Inr None \<and>
   fst (GetAccessToken StoragePtr
         (snd (refreshTokenHandler (Response 200 (Json sampleCredential))
                 (startState\<lparr>logger := Some Logrus\<rparr>)))) = Inr (''tok1'', True)"
proof -
  have l: "logger (startState\<lparr>logger := Some Logrus\<rparr>) = Some Logrus" by simp
  from read_after_write [OF l, of sampleCredential "''abc''" 200]
  obtain s1 where
    "refreshTokenHandler (Response 200 (Json sampleCredential)) (startState\<lparr>logger := Some Logrus\<rparr>)
       = (Inr None, s1)"
    "GetAccessToken StoragePtr s1 = (Inr (AccessToken sampleCredential, True), s1)"
    by blast
  with l show ?thesis by (simp add: sampleCredential_def)
qed

subsection \<open>The refresh manager\<close>

lemma logCall_attempts: "refreshAttempts (snd (logCall lvl s)) = refreshAttempts s"
  by (simp add: logCall_def refreshAttempts_def split: option.splits Logger.splits)

lemma persist_attempts:
  "refreshAttempts (snd (persistCredentials lib path s)) = refreshAttempts s"
  by (simp add: persistCredentials_def exec_defs refreshAttempts_def Let_def
        split: option.splits Logger.splits)

lemma sleep_attempts: "refreshAttempts (snd (time_Sleep d s)) = refreshAttempts s"
  by (simp add: time_Sleep_def exec_defs refreshAttempts_def)

lemma refresh_attempts:
  "refreshAttempts (snd (refreshTokenHandler reply s)) = Suc (refreshAttempts s)"
  by (simp add: refreshTokenHandler_def exec_defs refreshAttempts_def openLoginPage_def
        clearCredentials_def setCredentials_def setAuthenticated_def storeToken_def
        split: option.splits Logger.splits http_result.splits body.splits)

lemma cycle_attempts:
  "refreshAttempts (snd (managerCycle lib reply s)) \<le> Suc (refreshAttempts s)"
  by (simp add: managerCycle_def seq_snd_cases ret_def persist_attempts sleep_attempts
        logCall_attempts refresh_attempts split: sum.splits)

text \<open>Every pass through the loop posts at most one refresh.\<close>

lemma loop_attempts:
  "refreshAttempts (snd (managerLoop lib replies s)) \<le> refreshAttempts s + length replies"
proof (induction replies arbitrary: s)
  case Nil
  show ?case by simp
next
  case (Cons reply replies)
  obtain r s' where c: "managerCycle lib reply s = (r, s')"
    by (cases "managerCycle lib reply s")
  have a: "refreshAttempts s' \<le> Suc (refreshAttempts s)"
    using cycle_attempts [of lib reply s] c by simp
  show ?case
  proof (cases r)
    case (Inl e)
    with c a show ?thesis by simp
  next
    case (Inr err)
    show ?thesis
    proof (cases err)
      case None
      with Inr c a Cons.IH [of s'] show ?thesis by simp
    next
      case (Some e)
      with Inr c a show ?thesis by (simp add: refreshAttempts_def)
    qed
  qed
qed

lemma refresh_malformed_not_nil:
  "fst (refreshTokenHandler (Response 200 Malformed) s) \<noteq> Inr None"
  by (simp add: refreshTokenHandler_def exec_defs openLoginPage_def
        split: option.splits Logger.splits)

lemma cycle_malformed_not_nil:
  "fst (managerCycle lib (Response 200 Malformed) s) \<noteq> Inr None"
  by (simp add: managerCycle_def seq_fst_cases refresh_malformed_not_nil split: sum.splits)

lemma loop_stops_at_malformed:
  "managerLoop lib (pre @ Response 200 Malformed # rest) s
     = managerLoop lib (pre @ [Response 200 Malformed]) s"
proof (induction pre arbitrary: s)
  case Nil
  obtain r s' where c: "managerCycle lib (Response 200 Malformed) s = (r, s')"
    by (cases "managerCycle lib (Response 200 Malformed) s")
  with cycle_malformed_not_nil [of lib s] have "r \<noteq> Inr None" by simp
  with c show ?case by (simp split: sum.splits option.splits)
next
  case (Cons reply pre)
  then show ?case by (simp split: prod.splits sum.splits option.splits)
qed

lemma loop_malformed_not_looping:
  "fst (managerLoop lib (pre @ [Response 200 Malformed]) s) \<noteq> Inr Looping"
proof (induction pre arbitrary: s)
  case Nil
  obtain r s' where c: "managerCycle lib (Response 200 Malformed) s = (r, s')"
    by (cases "managerCycle lib (Response 200 Malformed) s")
  with cycle_malformed_not_nil [of lib s] have "r \<noteq> Inr None" by simp
  with c show ?case by (simp split: sum.splits option.splits)
next
  case (Cons reply pre)
  then show ?case by (simp split: prod.splits sum.splits option.splits)
qed

lemma loop_stopped_flag:
  "managerLoop lib replies s = (Inr Stopped, s') \<Longrightarrow> \<not> refreshTokenManagerRunning s'"
  by (induction replies arbitrary: s) (auto split: prod.splits sum.splits option.splits)

lemma refresh_keeps_env:
  "logger (snd (refreshTokenHandler reply s)) = logger s \<and>
   credentialsConfig (snd (refreshTokenHandler reply s)) = credentialsConfig s"
  by (simp add: refreshTokenHandler_def exec_defs openLoginPage_def clearCredentials_def
        setCredentials_def setAuthenticated_def storeToken_def
        split: option.splits Logger.splits http_result.splits body.splits)

lemma refresh_returns:
  "logger s = Some lg \<Longrightarrow> \<exists>e. fst (refreshTokenHandler reply s) = Inr e"
  by (cases lg) (simp add: refreshTokenHandler_def exec_defs openLoginPage_def clearCredentials_def
        setCredentials_def setAuthenticated_def
        split: http_result.splits body.splits)

text \<open>
  With the logger assigned and persistence off nothing in a pass can abort, and the pass
  leaves both as they are.
\<close>

lemma cycle_returns:
  assumes "logger s = Some lg" and "\<not> Persist (credentialsConfig s)"
  shows "\<exists>e. fst (managerCycle lib reply s) = Inr e"
    and "logger (snd (managerCycle lib reply s)) = Some lg"
    and "credentialsConfig (snd (managerCycle lib reply s)) = credentialsConfig s"
proof -
  define s1 where
    "s1 = snd (time_Sleep (timeUntilRefresh (credentials (graphCredentialStorage s))) s)"
  define s2 where "s2 = s1\<lparr>trace := trace s1 @ [Log Debug]\<rparr>"
  have l2: "logger s2 = Some lg" and c2: "credentialsConfig s2 = credentialsConfig s"
    using assms by (simp_all add: s2_def s1_def time_Sleep_def exec_defs)
  have m: "managerCycle lib reply s = refreshTokenHandler reply s2"
    using assms by (cases lg) (simp add: managerCycle_def s2_def s1_def time_Sleep_def exec_defs)
  show "\<exists>e. fst (managerCycle lib reply s) = Inr e"
    unfolding m using l2 by (rule refresh_returns)
  show "logger (snd (managerCycle lib reply s)) = Some lg"
    unfolding m using l2 by (simp add: refresh_keeps_env)
  show "credentialsConfig (snd (managerCycle lib reply s)) = credentialsConfig s"
    unfolding m using c2 by (simp add: refresh_keeps_env)
qed

lemma loop_stops:
  "logger s = Some lg \<Longrightarrow> \<not> Persist (credentialsConfig s) \<Longrightarrow>
     fst (managerLoop lib (pre @ [Response 200 Malformed]) s) = Inr Stopped"
proof (induction pre arbitrary: s)
  case Nil
  obtain r s' where c: "managerCycle lib (Response 200 Malformed) s = (r, s')"
    by (cases "managerCycle lib (Response 200 Malformed) s")
  from cycle_returns(1) [OF Nil, of lib "Response 200 Malformed"] c
  obtain e where "r = Inr e" by auto
  moreover from cycle_malformed_not_nil [of lib s] c have "r \<noteq> Inr None" by simp
  ultimately show ?case using c by (auto split: option.splits)
next
  case (Cons reply pre)
  obtain r s' where c: "managerCycle lib reply s = (r, s')"
    by (cases "managerCycle lib reply s")
  from cycle_returns [OF Cons.prems, of lib reply] c obtain e where e: "r = Inr e"
    and l: "logger s' = Some lg" and p: "\<not> Persist (credentialsConfig s')"
    using Cons.prems(2) by auto
  show ?case
  proof (cases e)
    case None
    with c e Cons.IH [OF l p] show ?thesis by simp
  next
    case (Some err)
    with c e show ?thesis by simp
  qed
qed

lemma refresh_transport_not_error:
  "fst (refreshTokenHandler TransportError s) \<noteq> Inr (Some e)"
  by (simp add: refreshTokenHandler_def exec_defs split: option.splits Logger.splits)

lemma transport_not_error:
  "fst (managerCycle lib TransportError s) \<noteq> Inr (Some e)"
  by (simp add: managerCycle_def seq_fst_cases refresh_transport_not_error split: sum.splits)

lemma loop_after_transport:
  "managerLoop lib (TransportError # rest) s =
     (case managerCycle lib TransportError s of
        (Inl e, s') \<Rightarrow> (Inl e, s')
      | (Inr _, s') \<Rightarrow> managerLoop lib rest s')"
  using transport_not_error [of lib s]
  by (cases "managerCycle lib TransportError s") (auto split: sum.splits option.splits)

text \<open>
  C2, as the code has it. The loop stops at the failures that \<open>refreshTokenHandler\<close>
  reports as an error, which are the decode failures. Let the provider answer the
  refreshes of the loop with \<open>pre\<close>, then with a body that does not decode, then with
  \<open>rest\<close>. The run is the same whatever \<open>rest\<close> is, so no pass follows the failed
  refresh; it is not left looping; it posts at most one refresh per answer up to the
  failed one; and where nothing aborts (logger assigned, persistence off) the manager
  ends \<open>Stopped\<close> with \<open>refreshTokenManagerRunning = False\<close>. A transport failure is
  not reported as an error: after it the loop goes on with the next pass.
\<close>

theorem manager_stops_on_decode_failure:
  "managerLoop lib (pre @ Response 200 Malformed # rest) s
      = managerLoop lib (pre @ [Response 200 Malformed]) s \<and>
   fst (managerLoop lib (pre @ Response 200 Malformed # rest) s) \<noteq> Inr Looping \<and>
   refreshAttempts (snd (managerLoop lib (pre @ Response 200 Malformed # rest) s))
      \<le> refreshAttempts s + length pre + 1 \<and>
   (logger s \<noteq> None \<and> \<not> Persist (credentialsConfig s) \<longrightarrow>
      fst (managerLoop lib (pre @ Response 200 Malformed # rest) s) = Inr Stopped \<and>
      \<not> refreshTokenManagerRunning
           (snd (managerLoop lib (pre @ Response 200 Malformed # rest) s))) \<and>
   managerLoop lib (TransportError # rest) s =
     (case managerCycle lib TransportError s of
        (Inl e, s') \<Rightarrow> (Inl e, s')
      | (Inr _, s') \<Rightarrow> managerLoop lib rest s')"
proof -
  let ?run = "managerLoop lib (pre @ Response 200 Malformed # rest) s"
  let ?cut = "managerLoop lib (pre @ [Response 200 Malformed]) s"
  have eq: "?run = ?cut" by (rule loop_stops_at_malformed)
  have nl: "fst ?run \<noteq> Inr Looping" unfolding eq by (rule loop_malformed_not_looping)
  have at: "refreshAttempts (snd ?run) \<le> refreshAttempts s + length pre + 1"
    unfolding eq using loop_attempts [of lib "pre @ [Response 200 Malformed]" s] by simp
  have st: "fst ?run = Inr Stopped \<and> \<not> refreshTokenManagerRunning (snd ?run)"
    if "logger s \<noteq> None" and "\<not> Persist (credentialsConfig s)"
  proof -
    from that obtain lg where "logger s = Some lg" by auto
    from loop_stops [OF this that(2), of lib pre] have f: "fst ?cut = Inr Stopped" .
    then have "?cut = (Inr Stopped, snd ?cut)" by (metis prod.collapse)
    from loop_stopped_flag [OF this] f show ?thesis unfolding eq by simp
  qed
  from eq nl at st loop_after_transport show ?thesis by blast
qed

text \<open>
  C2 at a concrete run of the loop: a refresh that succeeds, then one whose body does not
  decode, then a transport failure that is never reached.
\<close>

theorem manager_stops_on_decode_failure_witness:
  "logger (startState\<lparr>logger := Some Logrus\<rparr>) \<noteq> None \<and>
   \<not> Persist (credentialsConfig (startState\<lparr>logger := Some Logrus\<rparr>)) \<and>
   fst (managerLoop sampleToml
          ([Response 200 (Json sampleCredential)] @ Response 200 Malformed # [TransportError])
          (startState\<lparr>logger := Some Logrus\<rparr>)) = Inr Stopped \<and>
   \<not> refreshTokenManagerRunning (snd (managerLoop sampleToml
          ([Response 200 (Json sampleCredential)] @ Response 200 Malformed # [TransportError])
          (startState\<lparr>logger := Some Logrus\<rparr>))) \<and>
   refreshAttempts (snd (managerLoop sampleToml
          ([Response 200 (Json sampleCredential)] @ Response 200 Malformed # [TransportError])
          (startState\<lparr>logger := Some Logrus\<rparr>))) \<le> 2"
proof -
  let ?s = "startState\<lparr>logger := Some Logrus\<rparr>"
  define R where "R = managerLoop sampleToml
          ([Response 200 (Json sampleCredential)] @ Response 200 Malformed # [TransportError]) ?s"
  have l: "logger ?s \<noteq> None" by simp
  have p: "\<not> Persist (credentialsConfig ?s)"
    by (simp add: startState_def)
  have a: "refreshAttempts ?s = 0"
    by (simp add: refreshAttempts_def startState_def)
  note T = manager_stops_on_decode_failure
         [of sampleToml "[Response 200 (Json sampleCredential)]" "[TransportError]" ?s,
          folded R_def]
  from T have "refreshAttempts (snd R)
                 \<le> refreshAttempts ?s + length [Response 200 (Json sampleCredential)] + 1"
    by blast
  with a have n: "refreshAttempts (snd R) \<le> 2" by simp
  from T l p have "fst R = Inr Stopped \<and> \<not> refreshTokenManagerRunning (snd R)"
    by blast
  with l p n show ?thesis unfolding R_def by blast
qed

text \<open>
  C2 as it is stated fails at a transport failure: the manager, started on a process
  with its logger, meets a transport failure in its first refresh, goes through the body
  of the loop again, posts a second refresh, and is still running.
\<close>

theorem transport_failure_is_retried:
  "fst (refreshTokenManager sampleToml [TransportError, TransportError]
          (startState\<lparr>logger := Some Logrus\<rparr>)) = Inr Looping \<and>
   refreshAttempts (snd (refreshTokenManager sampleToml [TransportError, TransportError]
          (startState\<lparr>logger := Some Logrus\<rparr>))) = 2 \<and>
   refreshTokenManagerRunning (snd (refreshTokenManager sampleToml [TransportError, TransportError]
          (startState\<lparr>logger := Some Logrus\<rparr>)))"
  by (simp add: refreshTokenManager_def managerCycle_def startState_def exec_defs time_Sleep_def
        refreshTokenHandler_def refreshAttempts_def)

subsection \<open>Startup\<close>

text \<open>
  C9. Take a startup whose load returns normally with a refresh token that is not empty,
  and whose refresh the provider answers with status 200 and a body that decodes to \<open>g\<close>.
  \<open>Run\<close> returns the nil pointer, although the store holds the access token of \<open>g\<close>,
  authenticated; every \<open>GetAccessToken\<close> through the pointer returned, in whatever
  state, is a nil dereference.
\<close>

theorem run_refreshed_returns_nil:
  assumes "loadExistingCredentials lib (s\<lparr>credentialsConfig := appConfig\<rparr>) = (Inr (), s1)"
    and "RefreshToken (credentials (graphCredentialStorage s1)) \<noteq> []"
  shows "\<exists>s'. Run lib appConfig log (Response 200 (Json g)) s = (Inr NilHandle, s') \<and>
              GetAccessToken StoragePtr s' = (Inr (AccessToken g, True), s') \<and>
              (\<forall>s''. GetAccessToken NilHandle s'' = (Inl NilPointerDereference, s''))"
  using assms
  by (cases log) (simp add: Run_def exec_defs refreshTokenHandler_def storeToken_def
        GetAccessToken_def)

text \<open>
  C9 at a concrete startup: the document of \<open>sampleCredential\<close> is on disk, persistence
  is on, and the provider accepts the refresh.
\<close>

theorem run_refreshed_returns_nil_witness:
  "fst (loadExistingCredentials sampleToml (persistedState\<lparr>credentialsConfig := persistingConfig\<rparr>))
      = Inr () \<and>
   RefreshToken (credentials (graphCredentialStorage (snd (loadExistingCredentials sampleToml
       (persistedState\<lparr>credentialsConfig := persistingConfig\<rparr>))))) \<noteq> [] \<and>
   fst (Run sampleToml persistingConfig Logrus (Response 200 (Json sampleCredential)) persistedState)
      = Inr NilHandle \<and>
   fst (GetAccessToken NilHandle
         (snd (Run sampleToml persistingConfig Logrus (Response 200 (Json sampleCredential))
                 persistedState))) = Inl NilPointerDereference"
proof -
  define s1 where "s1 = snd (loadExistingCredentials sampleToml
       (persistedState\<lparr>credentialsConfig := persistingConfig\<rparr>))"
  have l: "loadExistingCredentials sampleToml (persistedState\<lparr>credentialsConfig := persistingConfig\<rparr>)
             = (Inr (), s1)"
    unfolding s1_def
    by (simp add: loadExistingCredentials_def exec_defs persistedState_def persistingConfig_def
          startState_def sampleToml_def credentialsFile_def filepath_Join_def Let_def)
  have t: "RefreshToken (credentials (graphCredentialStorage s1)) \<noteq> []"
    unfolding s1_def
    by (simp add: loadExistingCredentials_def exec_defs persistedState_def persistingConfig_def
          startState_def sampleToml_def credentialsFile_def filepath_Join_def Let_def
          setCredentials_def sampleCredential_def)
  have f: "fst (loadExistingCredentials sampleToml
                 (persistedState\<lparr>credentialsConfig := persistingConfig\<rparr>)) = Inr ()"
    by (simp add: l)
  from run_refreshed_returns_nil [OF l t, of Logrus sampleCredential]
  obtain s' where
    "Run sampleToml persistingConfig Logrus (Response 200 (Json sampleCredential)) persistedState
       = (Inr NilHandle, s')"
    "GetAccessToken NilHandle s' = (Inl NilPointerDereference, s')"
    by blast
  with f t [unfolded s1_def] show ?thesis by simp
qed

text \<open>
  C3 at the input where the code departs from it: the persisted credential has the
  refresh token \<open>rt-123\<close>, the browser is enabled, and the provider answers the
  refresh with status 400.
  \<open>refreshTokenHandler\<close> clears the store and returns nil, which \<open>Run\<close> takes for a
  refresh that succeeded: after the login page that the handler opened, it starts the
  refresh manager and returns the nil pointer. The store is not authenticated.
\<close>

theorem run_rejected_starts_manager:
  "fst (Run sampleToml (persistingConfig\<lparr>Browser := True\<rparr>) Logrus (Response 400 Malformed)
          persistedState) = Inr NilHandle \<and>
   trace (snd (Run sampleToml (persistingConfig\<lparr>Browser := True\<rparr>) Logrus (Response 400 Malformed)
                 persistedState))
     = [PostForm (RefreshTokenGrant ''rt-123''), Log Warn, BrowserOpen, GoRefreshTokenManager] \<and>
   authenticated (graphCredentialStorage
     (snd (Run sampleToml (persistingConfig\<lparr>Browser := True\<rparr>) Logrus (Response 400 Malformed)
             persistedState))) = False"
  by (simp add: Run_def loadExistingCredentials_def exec_defs persistedState_def persistingConfig_def
        startState_def sampleToml_def credentialsFile_def filepath_Join_def Let_def
        setCredentials_def sampleCredential_def refreshTokenHandler_def openLoginPage_def
        clearCredentials_def setAuthenticated_def emptyCredentialStorage_def)

subsection \<open>Persisting and loading\<close>



subsection \<open>What sets the flag\<close>

lemma load_authenticated:
  "authenticated (graphCredentialStorage (snd (loadExistingCredentials lib s))) = False"
  by (simp add: loadExistingCredentials_def exec_defs emptyCredentialStorage_def Let_def
        setCredentials_def split: option.splits Logger.splits prod.splits)





text \<open>
  C10 on the code. Whatever the file holds and whatever the toml library makes of it, the
  store after \<open>loadExistingCredentials\<close> (also when the load panics on the nil logger)
  has \<open>authenticated = False\<close>, and a read of it reports \<open>False\<close> with the access
  token loaded. The flag is not set by successful exchanges only: after a startup without
  persisted credentials a read reports \<open>False\<close>, and a callback that the provider answers
  with status 400 and a JSON error body turns the flag on.
\<close>

theorem load_never_authenticates:
  "authenticated (graphCredentialStorage (snd (loadExistingCredentials lib s))) = False \<and>
   fst (GetAccessToken StoragePtr (snd (loadExistingCredentials lib s)))
     = Inr (AccessToken (credentials (graphCredentialStorage (snd (loadExistingCredentials lib s)))),
            False) \<and>
   fst (Run sampleToml \<lparr>Browser = False, Persist = False, StoragePath = []\<rparr> Logrus
          TransportError startState) = Inr StoragePtr \<and>
   fst (GetAccessToken StoragePtr interactiveStart) = Inr ([], False) \<and>
   fst (callbackHandler ''bad'' (Response 400 (Json emptyGraphAuthentication)) interactiveStart)
     = Inr (''/success'', 303) \<and>
   fst (GetAccessToken StoragePtr
          (snd (callbackHandler ''bad'' (Response 400 (Json emptyGraphAuthentication))
                  interactiveStart))) = Inr ([], True)"
proof -
  have i: "interactiveStart
             = startState\<lparr>logger := Some Logrus\<rparr>"
    by (simp add: interactiveStart_def Run_def loadExistingCredentials_def exec_defs
          startState_def openLoginPage_def emptyCredentialStorage_def emptyGraphAuthentication_def)
  have r: "fst (Run sampleToml \<lparr>Browser = False, Persist = False, StoragePath = []\<rparr> Logrus
          TransportError startState) = Inr StoragePtr"
    by (simp add: Run_def loadExistingCredentials_def exec_defs
          startState_def openLoginPage_def emptyCredentialStorage_def emptyGraphAuthentication_def)
  have g: "fst (GetAccessToken StoragePtr interactiveStart) = Inr ([], False)"
    unfolding i
    by (simp add: GetAccessToken_def startState_def emptyCredentialStorage_def
          emptyGraphAuthentication_def)
  have c: "fst (callbackHandler ''bad'' (Response 400 (Json emptyGraphAuthentication))
                  interactiveStart) = Inr (''/success'', 303)"
    unfolding i by (simp add: callbackHandler_def exec_defs)
  have a: "fst (GetAccessToken StoragePtr
          (snd (callbackHandler ''bad'' (Response 400 (Json emptyGraphAuthentication))
                  interactiveStart))) = Inr ([], True)"
    unfolding i
    by (simp add: callbackHandler_def exec_defs storeToken_def GetAccessToken_def
          emptyGraphAuthentication_def)
  from r g c a show ?thesis by (simp add: load_authenticated GetAccessToken_def)
qed

subsection \<open>The expiry of an authenticated store\<close>






end
